theory Spec2Isabelle
  imports Main
begin

section \<open>JavaScript values and strings\<close>

text \<open>
  The server of \<^verbatim>\<open>backend/src/lib/socket.js\<close> receives its inputs from clients: the
  \<^verbatim>\<open>auth.userId\<close> field of a handshake and the \<^verbatim>\<open>data\<close> argument of a
  \<^verbatim>\<open>sendMessage\<close> event. Both are arbitrary JSON-like values, so they are modelled as
  values of \<open>jsval\<close> and not as well-typed records. Numbers are restricted to integers
  (no claim reads one). An array behaves in every function below as an object that has
  neither a \<^verbatim>\<open>receiverId\<close> nor a \<^verbatim>\<open>content\<close> nor a \<^verbatim>\<open>trim\<close> property, that is as
  \<open>JObj []\<close>. A \<open>string\<close> is read as a sequence of code units below 256.
\<close>

datatype jsval =
    JUndefined
  | JNull
  | JBool bool
  | JNum int
  | JStr string
  | JObj "(string \<times> jsval) list"

text \<open>\<^verbatim>\<open>!v\<close> is \<open>\<not> truthy v\<close>.\<close>

fun truthy :: "jsval \<Rightarrow> bool" where
  "truthy JUndefined = False"
| "truthy JNull = False"
| "truthy (JBool b) = b"
| "truthy (JNum n) = (n \<noteq> 0)"
| "truthy (JStr s) = (s \<noteq> [])"
| "truthy (JObj fs) = True"

text \<open>
  Reading the property \<open>k\<close> of a value, for the two property names the handler reads
  (\<^verbatim>\<open>receiverId\<close>, \<^verbatim>\<open>content\<close>): an object yields the stored value or \<^verbatim>\<open>undefined\<close>, a
  primitive has neither property.
\<close>

fun get_prop :: "jsval \<Rightarrow> string \<Rightarrow> jsval" where
  "get_prop (JObj fs) k = (case map_of fs k of None \<Rightarrow> JUndefined | Some v \<Rightarrow> v)"
| "get_prop v k = JUndefined"

text \<open>
  \<^verbatim>\<open>const { receiverId, content } = data;\<close> throws a TypeError when \<^verbatim>\<open>data\<close> is
  \<^verbatim>\<open>undefined\<close> or \<^verbatim>\<open>null\<close>. A thrown error is modelled by its \<^verbatim>\<open>message\<close>; the texts of
  the TypeErrors are those of V8.
\<close>

definition destructure :: "jsval \<Rightarrow> string + (jsval \<times> jsval)" where
  "destructure data =
     (case data of
        JUndefined \<Rightarrow> Inl ''Cannot destructure property 'receiverId' of 'data' as it is undefined.''
      | JNull \<Rightarrow> Inl ''Cannot destructure property 'receiverId' of 'data' as it is null.''
      | _ \<Rightarrow> Inr (get_prop data ''receiverId'', get_prop data ''content''))"

text \<open>
  \<^verbatim>\<open>String.prototype.trim\<close> removes white space and line terminators from both ends.
  Below 256 these are TAB, LF, VT, FF, CR, SP and NBSP.
\<close>

definition js_whitespace :: "char \<Rightarrow> bool" where
  "js_whitespace c \<longleftrightarrow> (of_char c :: nat) \<in> {9, 10, 11, 12, 13, 32, 160}"

definition trim :: "string \<Rightarrow> string" where
  "trim s = rev (dropWhile js_whitespace (rev (dropWhile js_whitespace s)))"

text \<open>
  \<^verbatim>\<open>content?.trim()\<close>: \<^verbatim>\<open>undefined\<close> (here \<open>None\<close>) when \<^verbatim>\<open>content\<close> is \<^verbatim>\<open>undefined\<close>
  or \<^verbatim>\<open>null\<close>, the trimmed string for a string, and a TypeError for every other value,
  none of which has a callable \<^verbatim>\<open>trim\<close>.
\<close>

fun optional_trim :: "jsval \<Rightarrow> string + string option" where
  "optional_trim JUndefined = Inr None"
| "optional_trim JNull = Inr None"
| "optional_trim (JStr s) = Inr (Some (trim s))"
| "optional_trim v = Inl ''content?.trim is not a function''"

section \<open>The presence registry: a JavaScript Map\<close>

text \<open>
  \<^verbatim>\<open>const userSockets = new Map();\<close> maps a user's \<^verbatim>\<open>clerkId\<close> to a socket id. A Map
  iterates in insertion order and \<^verbatim>\<open>set\<close> on a present key keeps the key's position, so
  it is modelled as an association list: \<open>jsmap_set\<close> replaces the value in place or
  appends, \<open>jsmap_delete\<close> removes the key, \<open>jsmap_keys\<close> is \<^verbatim>\<open>Array.from(m.keys())\<close>.
\<close>

fun jsmap_set :: "'k \<Rightarrow> 'v \<Rightarrow> ('k \<times> 'v) list \<Rightarrow> ('k \<times> 'v) list" where
  "jsmap_set k v [] = [(k, v)]"
| "jsmap_set k v (e # m) = (if fst e = k then (k, v) # m else e # jsmap_set k v m)"

definition jsmap_delete :: "'k \<Rightarrow> ('k \<times> 'v) list \<Rightarrow> ('k \<times> 'v) list" where
  "jsmap_delete k m = filter (\<lambda>e. fst e \<noteq> k) m"

definition jsmap_get :: "('k \<times> 'v) list \<Rightarrow> 'k \<Rightarrow> 'v option" where
  "jsmap_get m k = map_of m k"

definition jsmap_keys :: "('k \<times> 'v) list \<Rightarrow> 'k list" where
  "jsmap_keys m = map fst m"

text \<open>
  \<^verbatim>\<open>userSockets.get(receiverId)\<close> with a key taken from the payload: the keys of the
  registry are strings and a Map compares keys without coercion, so only a string finds
  an entry.
\<close>

fun jsmap_get_js :: "(string \<times> 'v) list \<Rightarrow> jsval \<Rightarrow> 'v option" where
  "jsmap_get_js m (JStr k) = jsmap_get m k"
| "jsmap_get_js m v = None"

section \<open>Documents, server state and emitted events\<close>

record user =
  clerkId :: string
  fullName :: string

record friend_request =
  fr_senderId :: string
  fr_receiverId :: string
  fr_status :: string

text \<open>
  A message as \<^verbatim>\<open>Message.create\<close> returns it; \<open>m_receiverId\<close> is the value taken from the
  payload. A notification is the object built at lines 127-132.
\<close>

record message =
  m_id :: nat
  m_senderId :: string
  m_receiverId :: jsval
  m_content :: string

record notification =
  n_userId :: jsval
  n_message :: string
  n_type :: string
  n_messageId :: nat

text \<open>
  The state of the server: the registry, the sockets on which the \<^verbatim>\<open>connection\<close>
  callback has attached the \<^verbatim>\<open>sendMessage\<close> and \<^verbatim>\<open>disconnect\<close> handlers (each with
  the \<^verbatim>\<open>socket.user\<close> its closure holds), and the four collections of the store.
\<close>

record server =
  userSockets :: "(string \<times> string) list"
  listeners :: "(string \<times> user) list"
  users :: "user list"
  friendRequests :: "friend_request list"
  messages :: "message list"
  notifications :: "notification list"

datatype event =
    user_status_update string string "string list"
  | messageUpdate message "notification option"
  | messageError string

text \<open>
  \<open>Everyone\<close> is \<^verbatim>\<open>io.emit\<close>, \<open>Room h\<close> is \<^verbatim>\<open>io.to(h).emit\<close> and \<open>Socket h\<close> is
  \<^verbatim>\<open>socket.emit\<close> on the socket whose id is \<open>h\<close>.
\<close>

datatype target = Everyone | Room string | Socket string

type_synonym emission = "target \<times> event"

section \<open>The store\<close>

text \<open>
  What the store does on one \<^verbatim>\<open>sendMessage\<close>: for each of the three calls whether it
  throws (\<open>Some\<close> of the error's message), and the \<^verbatim>\<open>_id\<close> it gives to a new message.
\<close>

record outcomes =
  friend_fault :: "string option"
  message_fault :: "string option"
  new_id :: nat
  notification_fault :: "string option"

text \<open>
  The four models the handlers call (\<^verbatim>\<open>backend/src/models\<close>) are not among the sources.
  Each is modelled by the contract the spec gives to the collaborator, with a first
  argument that says whether the call throws. Identities are strings, so a value that is
  not a string matches no record.
\<close>

text \<open>
  Modelled from the spec: \<^verbatim>\<open>User.findOne({ clerkId: userId }).select('clerkId fullName')\<close>,
  whose model \<^verbatim>\<open>User\<close> is missing: given an external user identifier, resolve a local
  user record (identity and display name), or \<^verbatim>\<open>null\<close> (here \<open>None\<close>).
\<close>

definition User_findOne :: "string option \<Rightarrow> user list \<Rightarrow> jsval \<Rightarrow> string + user option" where
  "User_findOne fault us userId =
     (case fault of
        Some e \<Rightarrow> Inl e
      | None \<Rightarrow> Inr (find (\<lambda>u. JStr (clerkId u) = userId) us))"

text \<open>
  Modelled from the spec: \<^verbatim>\<open>FriendRequest.findOne\<close> with the filter of lines 106-112,
  whose model \<^verbatim>\<open>FriendRequest\<close> is missing: a record with status \<^verbatim>\<open>accepted\<close> between
  the two identities, whichever of them is its sender, or \<^verbatim>\<open>null\<close>.
\<close>

definition FriendRequest_findOne ::
  "string option \<Rightarrow> friend_request list \<Rightarrow> string \<Rightarrow> jsval \<Rightarrow> string + friend_request option" where
  "FriendRequest_findOne fault frs userId receiverId =
     (case fault of
        Some e \<Rightarrow> Inl e
      | None \<Rightarrow> Inr (find (\<lambda>r.
          ((fr_senderId r = userId \<and> JStr (fr_receiverId r) = receiverId) \<or>
           (JStr (fr_senderId r) = receiverId \<and> fr_receiverId r = userId)) \<and>
          fr_status r = ''accepted'') frs))"

text \<open>
  Modelled from the spec: \<^verbatim>\<open>Message.create\<close>, whose model \<^verbatim>\<open>Message\<close> is missing:
  durably append a message record; the document returned carries its \<^verbatim>\<open>_id\<close>.
\<close>

definition Message_create ::
  "string option \<Rightarrow> nat \<Rightarrow> string \<Rightarrow> jsval \<Rightarrow> string \<Rightarrow> server \<Rightarrow> string + (message \<times> server)" where
  "Message_create fault i sender receiver text s =
     (case fault of
        Some e \<Rightarrow> Inl e
      | None \<Rightarrow>
          (let message = \<lparr>m_id = i, m_senderId = sender, m_receiverId = receiver, m_content = text\<rparr>
           in Inr (message, s\<lparr>messages := messages s @ [message]\<rparr>)))"

text \<open>
  Modelled from the spec: \<^verbatim>\<open>Notification.create\<close>, whose model \<^verbatim>\<open>Notification\<close> is
  missing: durably append a notification record.
\<close>

definition Notification_create :: "string option \<Rightarrow> notification \<Rightarrow> server \<Rightarrow> string + server" where
  "Notification_create fault n s =
     (case fault of
        Some e \<Rightarrow> Inl e
      | None \<Rightarrow> Inr (s\<lparr>notifications := notifications s @ [n]\<rparr>))"

section \<open>The handlers of \<^verbatim>\<open>initializeSocket\<close>\<close>

text \<open>
  The middleware of \<^verbatim>\<open>io.use\<close> (lines 64-81): \<open>Inl\<close> is \<^verbatim>\<open>next(new Error(...))\<close>, which
  refuses the connection, \<open>Inr user\<close> is \<^verbatim>\<open>socket.user = user; next()\<close>.
\<close>

definition auth_middleware :: "string option \<Rightarrow> user list \<Rightarrow> jsval \<Rightarrow> string + user" where
  "auth_middleware fault us userId =
     (if \<not> truthy userId then Inl ''Authentication error: No user ID provided''
      else case User_findOne fault us userId of
             Inl e \<Rightarrow> Inl (''Authentication failed: '' @ e)
           | Inr None \<Rightarrow> Inl ''Authentication error: User not found''
           | Inr (Some user) \<Rightarrow> Inr user)"

text \<open>
  The \<^verbatim>\<open>connection\<close> callback (lines 83-94 and the two \<^verbatim>\<open>socket.on\<close>) for the socket
  with id \<open>sid\<close> and \<^verbatim>\<open>socket.user = u\<close>.
\<close>

definition on_connection :: "string \<Rightarrow> user \<Rightarrow> server \<Rightarrow> server \<times> emission list" where
  "on_connection sid u s =
     (let userId = clerkId u;
          s1 = s\<lparr>userSockets := jsmap_set userId sid (userSockets s)\<rparr>;
          out = [(Everyone, user_status_update userId ''connected'' (jsmap_keys (userSockets s1)))]
      in (s1\<lparr>listeners := listeners s1 @ [(sid, u)]\<rparr>, out))"

text \<open>
  A handshake: the middleware, then the \<^verbatim>\<open>connection\<close> callback when the middleware
  called \<^verbatim>\<open>next()\<close> without an error. A refused connection runs no code of the server.
\<close>

definition handshake :: "string option \<Rightarrow> string \<Rightarrow> jsval \<Rightarrow> server \<Rightarrow> server \<times> emission list" where
  "handshake fault sid token s =
     (case auth_middleware fault (users s) token of
        Inl e \<Rightarrow> (s, [])
      | Inr u \<Rightarrow> on_connection sid u s)"

text \<open>
  The body of the \<^verbatim>\<open>try\<close> of the \<^verbatim>\<open>sendMessage\<close> handler (lines 98-145): the state it
  leaves, and either the message of the error thrown or the events emitted. \<open>userId\<close> is
  the constant of the closure, \<^verbatim>\<open>socket.user.clerkId\<close>. The handler is run as one step:
  no other handler runs at its three \<^verbatim>\<open>await\<close>s, so the store calls and the read of the
  registry (line 139, after the last \<^verbatim>\<open>await\<close>) see the one state \<open>s\<close> and what the
  handler itself wrote.
\<close>

definition try_sendMessage ::
  "outcomes \<Rightarrow> string \<Rightarrow> user \<Rightarrow> jsval \<Rightarrow> server \<Rightarrow> server \<times> (string + emission list)" where
  "try_sendMessage oc sid u data s =
     (let userId = clerkId u in
      case destructure data of
        Inl e \<Rightarrow> (s, Inl e)
      | Inr (receiverId, content) \<Rightarrow>
     (case optional_trim content of
        Inl e \<Rightarrow> (s, Inl e)
      | Inr None \<Rightarrow> (s, Inl ''Message cannot be empty'')
      | Inr (Some trimmedContent) \<Rightarrow>
     (if trimmedContent = [] then (s, Inl ''Message cannot be empty'')
      else
     (case FriendRequest_findOne (friend_fault oc) (friendRequests s) userId receiverId of
        Inl e \<Rightarrow> (s, Inl e)
      | Inr None \<Rightarrow>
          (s, Inl ''You can only message users who have accepted your friend request'')
      | Inr (Some friendshipStatus) \<Rightarrow>
     (case Message_create (message_fault oc) (new_id oc) userId receiverId trimmedContent s of
        Inl e \<Rightarrow> (s, Inl e)
      | Inr (message, s1) \<Rightarrow>
     (let notification =
            \<lparr>n_userId = receiverId,
             n_message = ''New message from '' @ fullName u,
             n_type = ''message'',
             n_messageId = m_id message\<rparr>
      in
      case Notification_create (notification_fault oc) notification s1 of
        Inl e \<Rightarrow> (s1, Inl e)
      | Inr s2 \<Rightarrow>
          (s2, Inr
            ((case jsmap_get_js (userSockets s2) receiverId of
                None \<Rightarrow> []
              | Some receiverSocketId \<Rightarrow>
                  if receiverSocketId \<noteq> []
                  then [(Room receiverSocketId, messageUpdate message (Some notification))]
                  else []) @
             [(Socket sid, messageUpdate message None)]))))))))"

text \<open>The \<^verbatim>\<open>catch\<close> (lines 147-151): \<^verbatim>\<open>error.message || "Failed to send message"\<close>.\<close>

definition sendMessage ::
  "outcomes \<Rightarrow> string \<Rightarrow> user \<Rightarrow> jsval \<Rightarrow> server \<Rightarrow> server \<times> emission list" where
  "sendMessage oc sid u data s =
     (case try_sendMessage oc sid u data s of
        (s', Inl e) \<Rightarrow>
          (s', [(Socket sid, messageError (if e = [] then ''Failed to send message'' else e))])
      | (s', Inr out) \<Rightarrow> (s', out))"

text \<open>
  The \<^verbatim>\<open>disconnect\<close> handler (lines 154-163) of a socket with \<^verbatim>\<open>socket.user = u\<close>. It
  reads no field of the socket but \<open>userId\<close>.
\<close>

definition on_disconnect :: "user \<Rightarrow> server \<Rightarrow> server \<times> emission list" where
  "on_disconnect u s =
     (let userId = clerkId u;
          s1 = s\<lparr>userSockets := jsmap_delete userId (userSockets s)\<rparr>
      in (s1, [(Everyone, user_status_update userId ''disconnected'' (jsmap_keys (userSockets s1)))]))"

section \<open>The server as a machine\<close>

text \<open>
  The inputs of the server. The transport gives a new socket an id that is not empty and
  that no open socket has; an event of a socket runs the handler attached to that socket
  and no code when there is none; a socket that disconnected has no handlers. The other
  parts of the application write the users and the friend requests.
\<close>

datatype input =
    Connect "string option" string jsval
  | SendMessage outcomes string jsval
  | Disconnect string
  | StoreWrite "user list" "friend_request list"

fun step :: "input \<Rightarrow> server \<Rightarrow> server \<times> emission list" where
  "step (Connect fault sid token) s =
     (if sid = [] \<or> sid \<in> set (map fst (listeners s)) then (s, [])
      else handshake fault sid token s)"
| "step (SendMessage oc sid data) s =
     (case map_of (listeners s) sid of
        None \<Rightarrow> (s, [])
      | Some u \<Rightarrow> sendMessage oc sid u data s)"
| "step (Disconnect sid) s =
     (case map_of (listeners s) sid of
        None \<Rightarrow> (s, [])
      | Some u \<Rightarrow>
          (case on_disconnect u s of
             (s1, out) \<Rightarrow> (s1\<lparr>listeners := filter (\<lambda>l. fst l \<noteq> sid) (listeners s1)\<rparr>, out)))"
| "step (StoreWrite us frs) s = (s\<lparr>users := us, friendRequests := frs\<rparr>, [])"

fun run :: "input list \<Rightarrow> server \<Rightarrow> server \<times> emission list" where
  "run [] s = (s, [])"
| "run (i # is) s =
     (case step i s of (s1, out1) \<Rightarrow> (case run is s1 of (s2, out2) \<Rightarrow> (s2, out1 @ out2)))"

text \<open>At the start of the process nobody is registered and no socket is open.\<close>

definition initial :: "server \<Rightarrow> bool" where
  "initial s \<longleftrightarrow> userSockets s = [] \<and> listeners s = []"

text \<open>
  The friendship check in the words of the spec: a record with status accepted exists
  between the two identities, whichever of them is its sender.
\<close>

definition isAccepted :: "friend_request list \<Rightarrow> string \<Rightarrow> string \<Rightarrow> bool" where
  "isAccepted frs a b \<longleftrightarrow>
     list_ex (\<lambda>r. fr_status r = ''accepted'' \<and>
                 ((fr_senderId r = a \<and> fr_receiverId r = b) \<or>
                  (fr_senderId r = b \<and> fr_receiverId r = a))) frs"

section \<open>The invariant of the registry and an example\<close>

text \<open>
  A registry is well formed when no key occurs twice and no stored socket id is empty.
\<close>

definition registry_ok :: "(string \<times> string) list \<Rightarrow> bool" where
  "registry_ok m \<longleftrightarrow> distinct (jsmap_keys m) \<and> [] \<notin> snd ` set m"

text \<open>Two users, a store in which they are friends, and the state after \<open>una\<close> has
  connected twice.\<close>

definition una :: user where
  "una = \<lparr>clerkId = ''una'', fullName = ''Una''\<rparr>"

definition bo :: user where
  "bo = \<lparr>clerkId = ''bo'', fullName = ''Bo''\<rparr>"

definition example_store :: server where
  "example_store =
     \<lparr>userSockets = [], listeners = [], users = [una, bo],
      friendRequests = [\<lparr>fr_senderId = ''bo'', fr_receiverId = ''una'', fr_status = ''accepted''\<rparr>],
      messages = [], notifications = []\<rparr>"

definition two_sockets :: server where
  "two_sockets =
     fst (run [Connect None ''h1'' (JStr ''una''), Connect None ''h2'' (JStr ''una'')] example_store)"

text \<open>
  The state in which \<open>bo\<close> and \<open>una\<close> are both connected, what the store does on a send
  (all calls succeed, the friendship lookup throws, the notification write throws), some
  payloads, and the message and the notification of \<open>bo\<close>'s greeting.
\<close>

definition friends_online :: server where
  "friends_online =
     fst (run [Connect None ''hb'' (JStr ''bo''), Connect None ''ha'' (JStr ''una'')] example_store)"

definition all_ok :: outcomes where
  "all_ok = \<lparr>friend_fault = None, message_fault = None, new_id = 7, notification_fault = None\<rparr>"

definition lookup_down :: outcomes where
  "lookup_down = \<lparr>friend_fault = Some ''store unavailable'', message_fault = None, new_id = 7,
                  notification_fault = None\<rparr>"

definition notify_down :: outcomes where
  "notify_down = \<lparr>friend_fault = None, message_fault = None, new_id = 7,
                  notification_fault = Some ''write failed''\<rparr>"

definition hello :: jsval where
  "hello = JObj [(''receiverId'', JStr ''una''), (''content'', JStr '' hi '')]"

definition forged :: jsval where
  "forged = JObj [(''senderId'', JStr ''una''), (''receiverId'', JStr ''una''),
                  (''content'', JStr '' hi ''), (''userId'', JStr ''una'')]"

definition blank :: jsval where
  "blank = JObj [(''receiverId'', JStr ''una''), (''content'', JStr ''   '')]"

definition to_stranger :: jsval where
  "to_stranger = JObj [(''receiverId'', JStr ''cy''), (''content'', JStr ''hi'')]"

definition hi_message :: message where
  "hi_message = \<lparr>m_id = 7, m_senderId = ''bo'', m_receiverId = JStr ''una'', m_content = ''hi''\<rparr>"


section \<open>Facts about the registry\<close>

lemma jsmap_keys_set:
  "jsmap_keys (jsmap_set k v m) = (if k \<in> set (jsmap_keys m) then jsmap_keys m else jsmap_keys m @ [k])"
  by (induction m) (auto simp: jsmap_keys_def)

lemma jsmap_get_set: "jsmap_get (jsmap_set k v m) k' = (if k' = k then Some v else jsmap_get m k')"
  by (induction m) (auto simp: jsmap_get_def)

lemma jsmap_get_delete: "jsmap_get (jsmap_delete k m) k' = (if k' = k then None else jsmap_get m k')"
  by (induction m) (auto simp: jsmap_get_def jsmap_delete_def)

lemma jsmap_keys_delete: "jsmap_keys (jsmap_delete k m) = filter (\<lambda>x. x \<noteq> k) (jsmap_keys m)"
  by (induction m) (auto simp: jsmap_keys_def jsmap_delete_def)

lemma distinct_keys_set: "distinct (jsmap_keys m) \<Longrightarrow> distinct (jsmap_keys (jsmap_set k v m))"
  by (simp add: jsmap_keys_set)

lemma distinct_keys_delete: "distinct (jsmap_keys m) \<Longrightarrow> distinct (jsmap_keys (jsmap_delete k m))"
  by (simp add: jsmap_keys_delete)

lemma entries_as_keys: "length (filter (\<lambda>e. fst e = k) m) = count_list (jsmap_keys m) k"
  by (induction m) (auto simp: jsmap_keys_def)

lemma distinct_count_le: "distinct xs \<Longrightarrow> count_list xs k \<le> 1"
  by (induction xs) auto

lemma distinct_count_mem: "distinct xs \<Longrightarrow> k \<in> set xs \<Longrightarrow> count_list xs k = 1"
  by (induction xs) auto

lemma values_set: "snd ` set (jsmap_set k v m) \<subseteq> insert v (snd ` set m)"
  by (induction m) auto

lemma values_delete: "set (jsmap_delete k m) \<subseteq> set m"
  by (auto simp: jsmap_delete_def)

lemma try_sendMessage_registry:
  "userSockets (fst (try_sendMessage oc sid u data s)) = userSockets s \<and>
   listeners (fst (try_sendMessage oc sid u data s)) = listeners s"
  by (auto simp: try_sendMessage_def Message_create_def Notification_create_def Let_def
           split: sum.splits option.splits prod.splits)

lemma sendMessage_registry:
  "userSockets (fst (sendMessage oc sid u data s)) = userSockets s \<and>
   listeners (fst (sendMessage oc sid u data s)) = listeners s"
  using try_sendMessage_registry[of oc sid u data s]
  by (auto simp: sendMessage_def split: sum.splits prod.splits)

lemma step_registry_ok:
  "registry_ok (userSockets s) \<Longrightarrow> registry_ok (userSockets (fst (step i s)))"
proof (cases i)
  case (Connect f sid tok)
  assume ok: "registry_ok (userSockets s)"
  show ?thesis
  proof (cases "sid = [] \<or> sid \<in> set (map fst (listeners s))")
    case True
    with ok Connect show ?thesis by simp
  next
    case False
    then have ne: "sid \<noteq> []" by simp
    show ?thesis
    proof (cases "auth_middleware f (users s) tok")
      case (Inl e)
      with ok Connect False show ?thesis by (simp add: handshake_def)
    next
      case (Inr u)
      have "[] \<notin> snd ` set (jsmap_set (clerkId u) sid (userSockets s))"
        using values_set[of "clerkId u" sid "userSockets s"] ok ne
        by (auto simp: registry_ok_def)
      with ok Connect False Inr show ?thesis
        by (simp add: handshake_def on_connection_def Let_def registry_ok_def distinct_keys_set)
    qed
  qed
next
  case (SendMessage oc sid data)
  assume ok: "registry_ok (userSockets s)"
  with SendMessage show ?thesis
    by (simp add: sendMessage_registry split: option.splits)
next
  case (Disconnect sid)
  assume ok: "registry_ok (userSockets s)"
  show ?thesis
  proof (cases "map_of (listeners s) sid")
    case None
    with ok Disconnect show ?thesis by simp
  next
    case (Some u)
    have "[] \<notin> snd ` set (jsmap_delete (clerkId u) (userSockets s))"
      using values_delete[of "clerkId u" "userSockets s"] ok
      by (auto simp: registry_ok_def)
    with ok Disconnect Some show ?thesis
      by (simp add: on_disconnect_def Let_def registry_ok_def distinct_keys_delete)
  qed
next
  case (StoreWrite us frs)
  assume ok: "registry_ok (userSockets s)"
  with StoreWrite show ?thesis by simp
qed

lemma fst_run_Cons: "fst (run (i # is) s) = fst (run is (fst (step i s)))"
  by (cases "step i s"; cases "run is (fst (step i s))") simp

lemma run_registry_ok:
  "registry_ok (userSockets s) \<Longrightarrow> registry_ok (userSockets (fst (run is s)))"
proof (induction "is" arbitrary: s)
  case Nil
  then show ?case by simp
next
  case (Cons i "is")
  from Cons.prems have "registry_ok (userSockets (fst (step i s)))"
    by (rule step_registry_ok)
  then have "registry_ok (userSockets (fst (run is (fst (step i s)))))"
    by (rule Cons.IH)
  then show ?case
    by (simp only: fst_run_Cons)
qed

lemma initial_registry_ok: "initial s \<Longrightarrow> registry_ok (userSockets s)"
  by (simp add: initial_def registry_ok_def jsmap_keys_def)


section \<open>Facts about the send pipeline\<close>

lemma trim_empty_iff: "trim c = [] \<longleftrightarrow> list_all js_whitespace c"
proof
  assume "trim c = []"
  then have "dropWhile js_whitespace (rev (dropWhile js_whitespace c)) = []"
    by (simp add: trim_def)
  then have "\<forall>x \<in> set (dropWhile js_whitespace c). js_whitespace x"
    by (simp add: dropWhile_eq_Nil_conv)
  then have "dropWhile js_whitespace c = []"
    by (metis dropWhile_eq_Nil_conv hd_dropWhile hd_in_set)
  then show "list_all js_whitespace c"
    by (simp add: dropWhile_eq_Nil_conv list_all_iff)
next
  assume "list_all js_whitespace c"
  then have e: "dropWhile js_whitespace c = []"
    by (simp add: list_all_iff)
  show "trim c = []"
    unfolding trim_def e by simp
qed

lemma findOne_isAccepted:
  "FriendRequest_findOne None frs a (JStr b) = Inr None \<longleftrightarrow> \<not> isAccepted frs a b"
  by (auto simp: isAccepted_def FriendRequest_findOne_def find_None_iff list_ex_iff)

lemma not_accepted_findOne:
  assumes "\<not> isAccepted frs a b"
  shows "FriendRequest_findOne None frs a (JStr b) = Inr None"
  using assms by (simp add: findOne_isAccepted)

lemma destructure_obj: "destructure (JObj fs) = Inr (get_prop (JObj fs) ''receiverId'', get_prop (JObj fs) ''content'')"
  by (simp add: destructure_def)

lemma get_prop_defined: "get_prop data k = v \<Longrightarrow> v \<noteq> JUndefined \<Longrightarrow> \<exists>fs. data = JObj fs"
  by (cases data) auto


lemma try_sendMessage_steps:
  assumes "get_prop data ''content'' = JStr c" and "trim c \<noteq> []"
    and "FriendRequest_findOne (friend_fault oc) (friendRequests s) (clerkId u)
           (get_prop data ''receiverId'') = Inr (Some r)"
    and "message_fault oc = None"
  shows "try_sendMessage oc sid u data s =
    (let message = \<lparr>m_id = new_id oc, m_senderId = clerkId u,
                     m_receiverId = get_prop data ''receiverId'', m_content = trim c\<rparr>;
         notification = \<lparr>n_userId = get_prop data ''receiverId'',
                          n_message = ''New message from '' @ fullName u,
                          n_type = ''message'', n_messageId = new_id oc\<rparr>;
         s1 = s\<lparr>messages := messages s @ [message]\<rparr>
     in case notification_fault oc of
          Some e \<Rightarrow> (s1, Inl e)
        | None \<Rightarrow>
            (s1\<lparr>notifications := notifications s @ [notification]\<rparr>,
             Inr ((case jsmap_get_js (userSockets s) (get_prop data ''receiverId'') of
                     None \<Rightarrow> []
                   | Some h \<Rightarrow> if h \<noteq> [] then [(Room h, messageUpdate message (Some notification))] else []) @
                  [(Socket sid, messageUpdate message None)])))"
proof -
  from assms(1) obtain fs where d: "data = JObj fs"
    using get_prop_defined by blast
  show ?thesis
    using assms unfolding d try_sendMessage_def destructure_obj Let_def
    by (simp add: Message_create_def Notification_create_def Let_def split: option.splits)
qed


lemma try_sendMessage_payload:
  assumes "get_prop (JObj f1) ''receiverId'' = get_prop (JObj f2) ''receiverId''"
    and "get_prop (JObj f1) ''content'' = get_prop (JObj f2) ''content''"
  shows "try_sendMessage oc sid u (JObj f1) s = try_sendMessage oc sid u (JObj f2) s"
  unfolding try_sendMessage_def destructure_obj assms ..

lemma sendMessage_state:
  "fst (sendMessage oc sid u data s) = s \<or>
   (\<exists>r m. FriendRequest_findOne (friend_fault oc) (friendRequests s) (clerkId u)
            (get_prop data ''receiverId'') = Inr (Some r) \<and>
          m_senderId m = clerkId u \<and>
          (fst (sendMessage oc sid u data s) = s\<lparr>messages := messages s @ [m]\<rparr> \<or>
           fst (sendMessage oc sid u data s) =
             s\<lparr>messages := messages s @ [m],
               notifications := notifications s @
                 [\<lparr>n_userId = get_prop data ''receiverId'',
                   n_message = ''New message from '' @ fullName u,
                   n_type = ''message'', n_messageId = m_id m\<rparr>]\<rparr>))"
proof (cases "\<exists>c r. get_prop data ''content'' = JStr c \<and> trim c \<noteq> [] \<and>
           FriendRequest_findOne (friend_fault oc) (friendRequests s) (clerkId u)
             (get_prop data ''receiverId'') = Inr (Some r) \<and> message_fault oc = None")
  case True
  then obtain c r where c: "get_prop data ''content'' = JStr c" and t: "trim c \<noteq> []"
    and f: "FriendRequest_findOne (friend_fault oc) (friendRequests s) (clerkId u)
             (get_prop data ''receiverId'') = Inr (Some r)" and mf: "message_fault oc = None"
    by blast
  let ?m = "\<lparr>m_id = new_id oc, m_senderId = clerkId u,
             m_receiverId = get_prop data ''receiverId'', m_content = trim c\<rparr>"
  have "fst (sendMessage oc sid u data s) = s\<lparr>messages := messages s @ [?m]\<rparr> \<or>
        fst (sendMessage oc sid u data s) =
             s\<lparr>messages := messages s @ [?m],
               notifications := notifications s @
                 [\<lparr>n_userId = get_prop data ''receiverId'',
                   n_message = ''New message from '' @ fullName u,
                   n_type = ''message'', n_messageId = m_id ?m\<rparr>]\<rparr>"
    by (cases "notification_fault oc")
       (simp_all add: sendMessage_def try_sendMessage_steps [OF c t f mf] Let_def)
  with f show ?thesis
    by (intro disjI2 exI [of _ r] exI [of _ ?m]) simp
next
  case False
  have "fst (try_sendMessage oc sid u data s) = s"
  proof (cases "destructure data")
    case (Inl e)
    then show ?thesis by (simp add: try_sendMessage_def)
  next
    case (Inr p)
    then have p: "destructure data = Inr (get_prop data ''receiverId'', get_prop data ''content'')"
      by (cases data) (auto simp: destructure_def)
    show ?thesis
      using False unfolding try_sendMessage_def p Let_def
      by (cases "get_prop data ''content''")
         (auto simp: Message_create_def split: sum.splits option.splits)
  qed
  then have "fst (sendMessage oc sid u data s) = s"
    by (cases "try_sendMessage oc sid u data s") (auto simp: sendMessage_def split: sum.splits)
  then show ?thesis ..
qed

section \<open>The claims\<close>

text \<open>
  C1, as stated, fails: \<open>una\<close> connects on socket \<open>h1\<close> and then on socket \<open>h2\<close>, so
  the registry holds \<open>h2\<close> for \<open>una\<close>; the disconnect of the superseded \<open>h1\<close> then
  removes the entry of \<open>una\<close> although \<open>h2\<close> is still open with its handlers attached.
\<close>

theorem stale_disconnect_removes_entry:
  "jsmap_get (userSockets (fst (run [Connect None ''h1'' (JStr ''una''),
                                       Connect None ''h2'' (JStr ''una'')] example_store))) ''una''
     = Some ''h2'' \<and>
   jsmap_get (userSockets (fst (run [Connect None ''h1'' (JStr ''una''),
                                       Connect None ''h2'' (JStr ''una''),
                                       Disconnect ''h1''] example_store))) ''una''
     = None \<and>
   map_of (listeners (fst (run [Connect None ''h1'' (JStr ''una''),
                                Connect None ''h2'' (JStr ''una''),
                                Disconnect ''h1''] example_store))) ''h2''
     = Some una"
  by code_simp

text \<open>
  C1, amended: the disconnect of any open socket of a user removes that user's entry,
  whichever socket id the registry holds for the user, and leaves the entry of every
  other user as it was.
\<close>

theorem disconnect_removes_entry:
  assumes "map_of (listeners s) sid = Some u"
  shows "jsmap_get (userSockets (fst (step (Disconnect sid) s))) k =
           (if k = clerkId u then None else jsmap_get (userSockets s) k)"
  using assms by (simp add: on_disconnect_def Let_def jsmap_get_delete)

theorem disconnect_removes_entry_witness:
  "map_of (listeners two_sockets) ''h1'' = Some una \<and>
   jsmap_get (userSockets two_sockets) ''una'' = Some ''h2'' \<and>
   jsmap_get (userSockets (fst (step (Disconnect ''h1'') two_sockets))) ''una'' = None"
proof -
  have h: "map_of (listeners two_sockets) ''h1'' = Some una"
    by code_simp
  have g: "jsmap_get (userSockets two_sockets) ''una'' = Some ''h2''"
    by code_simp
  show ?thesis
    using h g disconnect_removes_entry [OF h, of "''una''"] by (simp add: una_def)
qed

text \<open>
  C2: in every state the server reaches from its start, the registry holds at most one
  entry for a user \<open>U\<close>; and when it holds \<open>h1\<close> for the user of a connecting socket
  \<open>h2\<close>, the connection replaces the handle in place: the user then maps to \<open>h2\<close>, the
  keys are the same and the user has exactly one entry.
\<close>

theorem registry_one_entry_per_user:
  assumes "initial s0"
  shows "length (filter (\<lambda>e. fst e = U) (userSockets (fst (run is s0)))) \<le> 1 \<and>
         (jsmap_get (userSockets (fst (run is s0))) (clerkId u) = Some h1 \<longrightarrow>
            jsmap_get (userSockets (fst (on_connection h2 u (fst (run is s0))))) (clerkId u) = Some h2 \<and>
            jsmap_keys (userSockets (fst (on_connection h2 u (fst (run is s0))))) =
              jsmap_keys (userSockets (fst (run is s0))) \<and>
            length (filter (\<lambda>e. fst e = clerkId u)
                      (userSockets (fst (on_connection h2 u (fst (run is s0)))))) = 1)"
proof -
  let ?s = "fst (run is s0)"
  let ?m = "userSockets ?s"
  have ok: "registry_ok ?m"
    using assms by (simp add: initial_registry_ok run_registry_ok)
  then have d: "distinct (jsmap_keys ?m)"
    by (simp add: registry_ok_def)
  have one: "length (filter (\<lambda>e. fst e = U) ?m) \<le> 1"
    using distinct_count_le [OF d, of U] by (simp add: entries_as_keys)
  have over: "jsmap_get (userSockets (fst (on_connection h2 u ?s))) (clerkId u) = Some h2 \<and>
        jsmap_keys (userSockets (fst (on_connection h2 u ?s))) = jsmap_keys ?m \<and>
        length (filter (\<lambda>e. fst e = clerkId u) (userSockets (fst (on_connection h2 u ?s)))) = 1"
    if g: "jsmap_get ?m (clerkId u) = Some h1"
  proof -
    from g have mem: "clerkId u \<in> set (jsmap_keys ?m)"
      by (auto simp: jsmap_get_def jsmap_keys_def dest: map_of_SomeD intro: rev_image_eqI)
    have m': "userSockets (fst (on_connection h2 u ?s)) = jsmap_set (clerkId u) h2 ?m"
      by (simp add: on_connection_def Let_def)
    have k: "jsmap_keys (jsmap_set (clerkId u) h2 ?m) = jsmap_keys ?m"
      using mem by (simp add: jsmap_keys_set)
    have "count_list (jsmap_keys ?m) (clerkId u) = 1"
      using d mem by (rule distinct_count_mem)
    with k show ?thesis
      by (simp add: m' jsmap_get_set entries_as_keys)
  qed
  from one over show ?thesis by blast
qed


theorem registry_one_entry_per_user_witness:
  "initial example_store \<and>
   length (filter (\<lambda>e. fst e = ''una'') (userSockets two_sockets)) \<le> 1 \<and>
   jsmap_get (userSockets two_sockets) ''una'' = Some ''h2'' \<and>
   jsmap_get (userSockets (fst (on_connection ''h3'' una two_sockets))) ''una'' = Some ''h3'' \<and>
   length (filter (\<lambda>e. fst e = ''una'') (userSockets (fst (on_connection ''h3'' una two_sockets)))) = 1"
proof -
  have i: "initial example_store"
    by (simp add: initial_def example_store_def)
  have g: "jsmap_get (userSockets two_sockets) (clerkId una) = Some ''h2''"
    by code_simp
  show ?thesis
    using i g registry_one_entry_per_user [OF i,
        of "''una''" "[Connect None ''h1'' (JStr ''una''), Connect None ''h2'' (JStr ''una'')]"
           una "''h2''" "''h3''"]
    by (simp add: two_sockets_def una_def)
qed

text \<open>
  C3: when the store holds no accepted friend request between the sender and \<open>b\<close>, in
  either direction, a send to \<open>b\<close> leaves the whole state as it was (no message, no
  notification) and emits one event only, a \<^verbatim>\<open>messageError\<close> on the sender's own socket;
  this holds for every content and whatever the store does.
\<close>

theorem send_to_non_friend_rejected:
  assumes "\<not> isAccepted (friendRequests s) (clerkId u) b"
    and "get_prop data ''receiverId'' = JStr b"
  shows "\<exists>m. sendMessage oc sid u data s = (s, [(Socket sid, messageError m)])"
proof -
  from assms(2) obtain fs where d: "data = JObj fs"
    using get_prop_defined by blast
  have lookup: "\<exists>e. FriendRequest_findOne (friend_fault oc) (friendRequests s) (clerkId u) (JStr b) = Inl e
            \<or> FriendRequest_findOne (friend_fault oc) (friendRequests s) (clerkId u) (JStr b) = Inr None"
  proof (cases "friend_fault oc")
    case None
    with not_accepted_findOne [OF assms(1)] show ?thesis by simp
  next
    case (Some e)
    then show ?thesis by (simp add: FriendRequest_findOne_def)
  qed
  have "\<exists>e. try_sendMessage oc sid u data s = (s, Inl e)"
    using lookup assms(2) unfolding d try_sendMessage_def destructure_obj Let_def
    by (auto split: sum.splits option.splits)
  then show ?thesis
    by (auto simp: sendMessage_def)
qed

theorem send_to_non_friend_rejected_witness:
  "\<not> isAccepted (friendRequests friends_online) (clerkId una) ''cy'' \<and>
   get_prop to_stranger ''receiverId'' = JStr ''cy'' \<and>
   (\<exists>m. sendMessage all_ok ''ha'' una to_stranger friends_online =
          (friends_online, [(Socket ''ha'', messageError m)]))"
proof -
  have h1: "\<not> isAccepted (friendRequests friends_online) (clerkId una) ''cy''"
    by code_simp
  have h2: "get_prop to_stranger ''receiverId'' = JStr ''cy''"
    by code_simp
  from send_to_non_friend_rejected [OF h1 h2, of all_ok "''ha''"] h1 h2
  show ?thesis by blast
qed

text \<open>
  C4: a send whose content is a string that trims to the empty string leaves the state as
  it was and emits \<^verbatim>\<open>messageError\<close> with the text of line 102 on the sender's socket. The
  result is the same for every \<open>oc\<close> and every collection of friend requests, also when
  the friendship lookup would throw: the lookup is not reached.
\<close>

theorem empty_content_rejected:
  assumes "get_prop data ''content'' = JStr c" and "trim c = []"
  shows "sendMessage oc sid u data s = (s, [(Socket sid, messageError ''Message cannot be empty'')])"
proof -
  from assms(1) obtain fs where d: "data = JObj fs"
    using get_prop_defined by blast
  have "try_sendMessage oc sid u data s = (s, Inl ''Message cannot be empty'')"
    using assms unfolding d try_sendMessage_def destructure_obj Let_def
    by simp
  then show ?thesis
    by (simp add: sendMessage_def)
qed


theorem empty_content_rejected_witness:
  "get_prop blank ''content'' = JStr ''   '' \<and> trim ''   '' = [] \<and>
   sendMessage lookup_down ''ha'' una blank friends_online =
     (friends_online, [(Socket ''ha'', messageError ''Message cannot be empty'')])"
proof -
  have h1: "get_prop blank ''content'' = JStr ''   ''"
    by code_simp
  have h2: "trim ''   '' = []"
    by code_simp
  from empty_content_rejected [OF h1 h2, of lookup_down "''ha''" una friends_online] h1 h2
  show ?thesis by blast
qed



text \<open>
  C6: with \<open>s\<close> the state before the event, a connection sets the registry to
  \<open>jsmap_set (clerkId u) sid (userSockets s)\<close> and a disconnect sets it to
  \<open>jsmap_delete (clerkId u) (userSockets s)\<close>, and the roster of the one
  \<^verbatim>\<open>user_status_update\<close> broadcast is the list of keys of that updated registry: on a
  connection the users of before and the connecting user, on a disconnect the users of
  before without the disconnecting user.
\<close>

theorem status_roster_after_update:
  "userSockets (fst (on_connection sid u s)) = jsmap_set (clerkId u) sid (userSockets s) \<and>
   snd (on_connection sid u s) =
     [(Everyone, user_status_update (clerkId u) ''connected''
                   (jsmap_keys (jsmap_set (clerkId u) sid (userSockets s))))] \<and>
   set (jsmap_keys (jsmap_set (clerkId u) sid (userSockets s))) =
     insert (clerkId u) (set (jsmap_keys (userSockets s))) \<and>
   clerkId u \<in> set (jsmap_keys (userSockets (fst (on_connection sid u s)))) \<and>
   userSockets (fst (on_disconnect u s)) = jsmap_delete (clerkId u) (userSockets s) \<and>
   snd (on_disconnect u s) =
     [(Everyone, user_status_update (clerkId u) ''disconnected''
                   (jsmap_keys (jsmap_delete (clerkId u) (userSockets s))))] \<and>
   set (jsmap_keys (jsmap_delete (clerkId u) (userSockets s))) =
     set (jsmap_keys (userSockets s)) - {clerkId u} \<and>
   clerkId u \<notin> set (jsmap_keys (userSockets (fst (on_disconnect u s))))"
proof -
  have c: "set (jsmap_keys (jsmap_set (clerkId u) sid (userSockets s))) =
             insert (clerkId u) (set (jsmap_keys (userSockets s)))"
    by (auto simp: jsmap_keys_set)
  have d: "set (jsmap_keys (jsmap_delete (clerkId u) (userSockets s))) =
             set (jsmap_keys (userSockets s)) - {clerkId u}"
    by (auto simp: jsmap_keys_delete)
  have on: "on_connection sid u s =
      (s\<lparr>userSockets := jsmap_set (clerkId u) sid (userSockets s),
         listeners := listeners s @ [(sid, u)]\<rparr>,
       [(Everyone, user_status_update (clerkId u) ''connected''
                     (jsmap_keys (jsmap_set (clerkId u) sid (userSockets s))))])"
    by (simp add: on_connection_def Let_def)
  have off: "on_disconnect u s =
      (s\<lparr>userSockets := jsmap_delete (clerkId u) (userSockets s)\<rparr>,
       [(Everyone, user_status_update (clerkId u) ''disconnected''
                     (jsmap_keys (jsmap_delete (clerkId u) (userSockets s))))])"
    by (simp add: on_disconnect_def Let_def)
  show ?thesis
    unfolding on off using c d by simp
qed

theorem status_roster_after_update_witness:
  "jsmap_keys (userSockets friends_online) = [''bo'', ''una''] \<and>
   snd (on_connection ''h3'' \<lparr>clerkId = ''cy'', fullName = ''Cy''\<rparr> friends_online) =
     [(Everyone, user_status_update ''cy'' ''connected'' [''bo'', ''una'', ''cy''])] \<and>
   snd (on_disconnect una friends_online) =
     [(Everyone, user_status_update ''una'' ''disconnected'' [''bo''])]"
proof -
  have k: "jsmap_keys (userSockets friends_online) = [''bo'', ''una'']"
    by code_simp
  have c: "jsmap_keys (jsmap_set ''cy'' ''h3'' (userSockets friends_online)) = [''bo'', ''una'', ''cy'']"
    by code_simp
  have d: "jsmap_keys (jsmap_delete (clerkId una) (userSockets friends_online)) = [''bo'']"
    by code_simp
  have n: "clerkId una = ''una''"
    by code_simp
  from status_roster_after_update [of "''h3''" "\<lparr>clerkId = ''cy'', fullName = ''Cy''\<rparr>" friends_online]
       status_roster_after_update [of "''h3''" una friends_online] k c d n
  show ?thesis by simp
qed

text \<open>
  C7: when the content and the friendship pass, the message is stored and the write of
  the notification throws \<open>e\<close>, the message stays in the store, no notification is stored,
  and the only event is a \<^verbatim>\<open>messageError\<close> on the sender's socket: no
  \<^verbatim>\<open>messageUpdate\<close> goes to the receiver or to the sender.
\<close>

theorem notification_fault_keeps_message:
  assumes "get_prop data ''content'' = JStr c" and "trim c \<noteq> []"
    and "FriendRequest_findOne (friend_fault oc) (friendRequests s) (clerkId u)
           (get_prop data ''receiverId'') = Inr (Some r)"
    and "message_fault oc = None"
    and "notification_fault oc = Some e"
  shows "sendMessage oc sid u data s =
           (s\<lparr>messages := messages s @
                 [\<lparr>m_id = new_id oc, m_senderId = clerkId u,
                   m_receiverId = get_prop data ''receiverId'', m_content = trim c\<rparr>]\<rparr>,
            [(Socket sid, messageError (if e = [] then ''Failed to send message'' else e))])"
  by (simp add: sendMessage_def try_sendMessage_steps [OF assms(1-4)] assms(5) Let_def)


theorem notification_fault_keeps_message_witness:
  "get_prop hello ''content'' = JStr '' hi '' \<and> trim '' hi '' \<noteq> [] \<and>
   FriendRequest_findOne (friend_fault notify_down) (friendRequests friends_online) (clerkId bo)
     (get_prop hello ''receiverId'') =
     Inr (Some \<lparr>fr_senderId = ''bo'', fr_receiverId = ''una'', fr_status = ''accepted''\<rparr>) \<and>
   message_fault notify_down = None \<and>
   notification_fault notify_down = Some ''write failed'' \<and>
   sendMessage notify_down ''hb'' bo hello friends_online =
     (friends_online\<lparr>messages := [hi_message]\<rparr>, [(Socket ''hb'', messageError ''write failed'')])"
proof -
  have h1: "get_prop hello ''content'' = JStr '' hi ''"
    by code_simp
  have h2: "trim '' hi '' \<noteq> []"
    by code_simp
  have h3: "FriendRequest_findOne (friend_fault notify_down) (friendRequests friends_online)
      (clerkId bo) (get_prop hello ''receiverId'') =
     Inr (Some \<lparr>fr_senderId = ''bo'', fr_receiverId = ''una'', fr_status = ''accepted''\<rparr>)"
    by code_simp
  have h4: "message_fault notify_down = None"
    by code_simp
  have h5: "notification_fault notify_down = Some ''write failed''"
    by code_simp
  have m: "\<lparr>m_id = new_id notify_down, m_senderId = clerkId bo,
             m_receiverId = get_prop hello ''receiverId'', m_content = trim '' hi ''\<rparr> = hi_message"
    by code_simp
  have s: "messages friends_online = []"
    by code_simp
  from notification_fault_keeps_message [OF h1 h2 h3 h4 h5, of "''hb''"] h1 h2 h3 h4 h5
  show ?thesis
    unfolding m s by simp
qed

text \<open>
  C8: two payloads that are objects with the same \<^verbatim>\<open>receiverId\<close> and the same
  \<^verbatim>\<open>content\<close> give the same state and the same events, whatever other fields they
  carry; every message the send adds has the \<^verbatim>\<open>clerkId\<close> of the socket's user as its
  sender, every notification it adds names that user's \<^verbatim>\<open>fullName\<close>, and a message is
  added only when the friendship lookup for that \<^verbatim>\<open>clerkId\<close> found a record.
\<close>

theorem sender_from_connection:
  assumes "get_prop (JObj f1) ''receiverId'' = get_prop (JObj f2) ''receiverId''"
    and "get_prop (JObj f1) ''content'' = get_prop (JObj f2) ''content''"
  shows "sendMessage oc sid u (JObj f1) s = sendMessage oc sid u (JObj f2) s \<and>
    (\<forall>m \<in> set (messages (fst (sendMessage oc sid u (JObj f1) s))).
        m \<in> set (messages s) \<or> m_senderId m = clerkId u) \<and>
    (\<forall>n \<in> set (notifications (fst (sendMessage oc sid u (JObj f1) s))).
        n \<in> set (notifications s) \<or> n_message n = ''New message from '' @ fullName u) \<and>
    (messages (fst (sendMessage oc sid u (JObj f1) s)) \<noteq> messages s \<longrightarrow>
       (\<exists>r. FriendRequest_findOne (friend_fault oc) (friendRequests s) (clerkId u)
              (get_prop (JObj f1) ''receiverId'') = Inr (Some r)))"
proof -
  have eq: "sendMessage oc sid u (JObj f1) s = sendMessage oc sid u (JObj f2) s"
    by (simp only: sendMessage_def try_sendMessage_payload [OF assms])
  from sendMessage_state [of oc sid u "JObj f1" s] have rest:
    "(\<forall>m \<in> set (messages (fst (sendMessage oc sid u (JObj f1) s))).
        m \<in> set (messages s) \<or> m_senderId m = clerkId u) \<and>
    (\<forall>n \<in> set (notifications (fst (sendMessage oc sid u (JObj f1) s))).
        n \<in> set (notifications s) \<or> n_message n = ''New message from '' @ fullName u) \<and>
    (messages (fst (sendMessage oc sid u (JObj f1) s)) \<noteq> messages s \<longrightarrow>
       (\<exists>r. FriendRequest_findOne (friend_fault oc) (friendRequests s) (clerkId u)
              (get_prop (JObj f1) ''receiverId'') = Inr (Some r)))"
    by (elim disjE exE conjE) auto
  from eq rest show ?thesis ..
qed

theorem sender_from_connection_witness:
  "get_prop forged ''receiverId'' = get_prop hello ''receiverId'' \<and>
   get_prop forged ''content'' = get_prop hello ''content'' \<and>
   sendMessage all_ok ''hb'' bo forged friends_online =
     sendMessage all_ok ''hb'' bo hello friends_online \<and>
   map m_senderId (messages (fst (sendMessage all_ok ''hb'' bo forged friends_online))) = [''bo'']"
proof -
  have h1: "get_prop (JObj [(''senderId'', JStr ''una''), (''receiverId'', JStr ''una''),
                  (''content'', JStr '' hi ''), (''userId'', JStr ''una'')]) ''receiverId'' =
            get_prop (JObj [(''receiverId'', JStr ''una''), (''content'', JStr '' hi '')]) ''receiverId''"
    by code_simp
  have h2: "get_prop (JObj [(''senderId'', JStr ''una''), (''receiverId'', JStr ''una''),
                  (''content'', JStr '' hi ''), (''userId'', JStr ''una'')]) ''content'' =
            get_prop (JObj [(''receiverId'', JStr ''una''), (''content'', JStr '' hi '')]) ''content''"
    by code_simp
  have s: "map m_senderId (messages (fst (sendMessage all_ok ''hb'' bo forged friends_online))) =
             [''bo'']"
    by code_simp
  from sender_from_connection [OF h1 h2, of all_ok "''hb''" bo friends_online] h1 h2 s
  show ?thesis
    unfolding forged_def hello_def by simp
qed

text \<open>
  C9: when the handshake carries no user id (a falsy one), or no user has that id, or the
  lookup throws, the handshake leaves the state as it was: no entry in the registry, no
  handlers attached, and nothing is emitted.
\<close>

theorem failed_authentication_refused:
  assumes "\<not> truthy token \<or> User_findOne fault (users s) token = Inr None \<or>
           (\<exists>e. User_findOne fault (users s) token = Inl e)"
  shows "handshake fault sid token s = (s, []) \<and> step (Connect fault sid token) s = (s, [])"
  using assms by (auto simp: handshake_def auth_middleware_def)

theorem failed_authentication_refused_witness:
  "\<not> truthy JUndefined \<and>
   handshake None ''h9'' JUndefined friends_online = (friends_online, []) \<and>
   User_findOne None (users friends_online) (JStr ''cy'') = Inr None \<and>
   handshake None ''h9'' (JStr ''cy'') friends_online = (friends_online, []) \<and>
   User_findOne (Some ''store unavailable'') (users friends_online) (JStr ''una'') =
     Inl ''store unavailable'' \<and>
   step (Connect (Some ''store unavailable'') ''h9'' (JStr ''una'')) friends_online =
     (friends_online, [])"
proof -
  have h1: "\<not> truthy JUndefined"
    by simp
  have h2: "User_findOne None (users friends_online) (JStr ''cy'') = Inr None"
    by code_simp
  have h3: "User_findOne (Some ''store unavailable'') (users friends_online) (JStr ''una'') =
     Inl ''store unavailable''"
    by code_simp
  from failed_authentication_refused [of JUndefined None friends_online "''h9''"]
       failed_authentication_refused [of "JStr ''cy''" None friends_online "''h9''"]
       failed_authentication_refused [of "JStr ''una''" "Some ''store unavailable''"
          friends_online "''h9''"]
       h1 h2 h3
  show ?thesis by blast
qed

text \<open>
  C10: when the payload is an object whose \<^verbatim>\<open>content\<close> is absent, \<^verbatim>\<open>undefined\<close> or
  \<^verbatim>\<open>null\<close>, the handler returns with the state as it was and a \<^verbatim>\<open>messageError\<close> with
  the text of line 102 on the sender's socket, which is what it does for a content of
  blanks.
\<close>

theorem missing_content_rejected:
  assumes "map_of fs ''content'' \<in> {None, Some JUndefined, Some JNull}"
  shows "sendMessage oc sid u (JObj fs) s =
           (s, [(Socket sid, messageError ''Message cannot be empty'')]) \<and>
         sendMessage oc sid u (JObj fs) s =
           sendMessage oc sid u (JObj [(''content'', JStr ''   '')]) s"
proof -
  have a: "optional_trim (get_prop (JObj fs) ''content'') = Inr None"
    using assms by auto
  have b: "trim ''   '' = []"
    by (simp add: trim_def js_whitespace_def)
  have "try_sendMessage oc sid u (JObj fs) s = (s, Inl ''Message cannot be empty'')"
    unfolding try_sendMessage_def destructure_obj Let_def by (simp add: a del: get_prop.simps)
  moreover have "try_sendMessage oc sid u (JObj [(''content'', JStr ''   '')]) s =
      (s, Inl ''Message cannot be empty'')"
    unfolding try_sendMessage_def destructure_obj Let_def by (simp add: b)
  ultimately show ?thesis
    by (simp add: sendMessage_def)
qed


theorem missing_content_rejected_witness:
  "map_of [(''receiverId'', JStr ''una'')] ''content'' \<in> {None, Some JUndefined, Some JNull} \<and>
   sendMessage all_ok ''hb'' bo (JObj [(''receiverId'', JStr ''una'')]) friends_online =
     (friends_online, [(Socket ''hb'', messageError ''Message cannot be empty'')]) \<and>
   map_of [(''receiverId'', JStr ''una''), (''content'', JNull)] ''content''
     \<in> {None, Some JUndefined, Some JNull} \<and>
   sendMessage all_ok ''hb'' bo (JObj [(''receiverId'', JStr ''una''), (''content'', JNull)])
     friends_online =
     (friends_online, [(Socket ''hb'', messageError ''Message cannot be empty'')])"
proof -
  have h1: "map_of [(''receiverId'', JStr ''una'')] ''content'' \<in> {None, Some JUndefined, Some JNull}"
    by simp
  have h2: "map_of [(''receiverId'', JStr ''una''), (''content'', JNull)] ''content''
     \<in> {None, Some JUndefined, Some JNull}"
    by simp
  from missing_content_rejected [OF h1, of all_ok "''hb''" bo friends_online]
       missing_content_rejected [OF h2, of all_ok "''hb''" bo friends_online] h1 h2
  show ?thesis by blast
qed

end
